theory Spec2Isabelle
  imports Complex_Main "HOL-Library.Sublist"
begin

section \<open>The rate limiter (services/NetRecon/rate\_limiter.py)\<close>

subsection \<open>Data\<close>

text \<open>
  \<^verbatim>\<open>class RateLimitResult\<close>: the decision handed to the caller. An \<open>Optional[int]\<close>
  field is an \<open>int option\<close>; Python's unbounded integers are \<open>int\<close>.
\<close>

record RateLimitResult =
  allowed :: bool
  retry_after :: "int option"
  remaining :: "int option"

text \<open>
  The \<^verbatim>\<open>settings\<close> object comes from the module \<^verbatim>\<open>config\<close>; the limiter reads
  four attributes of it, so it is a parameter of every function below.
\<close>

record settings =
  rate_limit_enabled :: bool
  rate_limit_requests_per_window :: int
  rate_limit_window_seconds :: int
  redis_url :: string

text \<open>
  An exception raised by the Redis library. Both \<^verbatim>\<open>try\<close> blocks of the module catch
  \<^verbatim>\<open>Exception\<close>, so the class does not matter, only the text that \<^verbatim>\<open>%s\<close> prints.
\<close>

datatype exn = Exception (message: string)

type_synonym 'a reply = "exn + 'a"

text \<open>The object \<^verbatim>\<open>redis.Redis.from_url\<close> builds, remembered with the URL it was built from.\<close>

datatype client = Client string

text \<open>
  The Redis library and the server behind it are outside the repository: they are a
  parameter. Each operation reads and updates a state \<open>'w\<close> of the outside world (the
  server, the network, the clock) and either returns a value or raises.
  \<^verbatim>\<open>ttl\<close> answers an \<open>int option\<close> since the source tests the answer against \<^verbatim>\<open>None\<close>.
\<close>

record 'w redis =
  from_url :: "string \<Rightarrow> 'w \<Rightarrow> client reply \<times> 'w"
  ping :: "'w \<Rightarrow> unit reply \<times> 'w"
  incr :: "string \<Rightarrow> 'w \<Rightarrow> int reply \<times> 'w"
  expire :: "string \<Rightarrow> int \<Rightarrow> 'w \<Rightarrow> bool reply \<times> 'w"
  ttl :: "string \<Rightarrow> 'w \<Rightarrow> int option reply \<times> 'w"

text \<open>What the process asked of the library, in order.\<close>

datatype call =
  FromUrl string
| Ping
| Incr string
| Expire string int
| Ttl string

datatype log_record = Info string | Error string

text \<open>
  The state of the process: the module-level variable \<^verbatim>\<open>_redis_client\<close>, the outside
  world, the calls made so far and the records handed to \<^verbatim>\<open>logger\<close>.
\<close>

record 'w proc =
  redis_client :: "client option"
  world :: 'w
  calls :: "call list"
  logs :: "log_record list"

definition init_proc :: "'w \<Rightarrow> 'w proc" where
  "init_proc w = \<lparr>redis_client = None, world = w, calls = [], logs = []\<rparr>"

subsection \<open>Calling the library\<close>

definition perform :: "call \<Rightarrow> ('w \<Rightarrow> 'a reply \<times> 'w) \<Rightarrow> 'w proc \<Rightarrow> 'a reply \<times> 'w proc" where
  "perform c f st =
     (case f (world st) of
        (a, w') \<Rightarrow> (a, st\<lparr>world := w', calls := calls st @ [c]\<rparr>))"

definition log_info :: "string \<Rightarrow> 'w proc \<Rightarrow> 'w proc" where
  "log_info m st = st\<lparr>logs := logs st @ [Info m]\<rparr>"

definition log_error :: "string \<Rightarrow> 'w proc \<Rightarrow> 'w proc" where
  "log_error m st = st\<lparr>logs := logs st @ [Error m]\<rparr>"

subsection \<open>\<^verbatim>\<open>get_redis_client\<close>\<close>

text \<open>
  The cached client is returned when there is one. Otherwise the client is built and
  stored in \<^verbatim>\<open>_redis_client\<close>, then pinged; when either step raises, the handler logs
  the error, assigns \<^verbatim>\<open>None\<close> to \<^verbatim>\<open>_redis_client\<close> and returns \<^verbatim>\<open>None\<close>.
\<close>

definition get_redis_client ::
  "settings \<Rightarrow> 'w redis \<Rightarrow> 'w proc \<Rightarrow> client option \<times> 'w proc" where
  "get_redis_client cfg r st =
     (case redis_client st of
        Some c \<Rightarrow> (Some c, st)
      | None \<Rightarrow>
          (case perform (FromUrl (redis_url cfg)) (from_url r (redis_url cfg)) st of
             (Inl e, st1) \<Rightarrow>
               (None,
                (log_error (''Failed to connect to Redis for rate limiting: '' @ message e) st1)
                  \<lparr>redis_client := None\<rparr>)
           | (Inr c, st1) \<Rightarrow>
               (case perform Ping (ping r) (st1\<lparr>redis_client := Some c\<rparr>) of
                  (Inl e, st2) \<Rightarrow>
                    (None,
                     (log_error (''Failed to connect to Redis for rate limiting: '' @ message e) st2)
                       \<lparr>redis_client := None\<rparr>)
                | (Inr u, st2) \<Rightarrow>
                    (Some c,
                     log_info (''Connected to Redis for rate limiting at '' @ redis_url cfg) st2))))"

subsection \<open>\<^verbatim>\<open>check_rate_limit\<close>\<close>

text \<open>The value of the three \<^verbatim>\<open>RateLimitResult(allowed=True, retry_after=None, remaining=None)\<close>.\<close>

definition fail_open :: RateLimitResult where
  "fail_open = \<lparr>allowed = True, retry_after = None, remaining = None\<rparr>"

text \<open>\<^verbatim>\<open>if current == 1: client.expire(key, window)\<close>; the answer of \<^verbatim>\<open>expire\<close> is dropped.\<close>

definition arm_first_hit ::
  "'w redis \<Rightarrow> string \<Rightarrow> int \<Rightarrow> int \<Rightarrow> 'w proc \<Rightarrow> unit reply \<times> 'w proc" where
  "arm_first_hit r key window current st =
     (if current = 1 then
        (case perform (Expire key window) (expire r key window) st of
           (Inl e, st1) \<Rightarrow> (Inl e, st1)
         | (Inr b, st1) \<Rightarrow> (Inr (), st1))
      else (Inr (), st))"

text \<open>
  The body of the \<^verbatim>\<open>try\<close> statement. \<open>Inl e\<close> is the exception \<open>e\<close> leaving the body at the
  call that raised it. \<^verbatim>\<open>int(retry_after)\<close> is the identity on an \<^verbatim>\<open>int\<close>.
\<close>

definition try_body ::
  "'w redis \<Rightarrow> string \<Rightarrow> int \<Rightarrow> int \<Rightarrow> 'w proc \<Rightarrow> RateLimitResult reply \<times> 'w proc" where
  "try_body r key limit window st =
     (case perform (Incr key) (incr r key) st of
        (Inl e, st1) \<Rightarrow> (Inl e, st1)
      | (Inr current, st1) \<Rightarrow>
          (case arm_first_hit r key window current st1 of
             (Inl e, st2) \<Rightarrow> (Inl e, st2)
           | (Inr u, st2) \<Rightarrow>
               if current > limit then
                 (case perform (Ttl key) (ttl r key) st2 of
                    (Inl e, st3) \<Rightarrow> (Inl e, st3)
                  | (Inr t, st3) \<Rightarrow>
                      (Inr \<lparr>allowed = False,
                            retry_after =
                              Some (case t of
                                      None \<Rightarrow> window
                                    | Some v \<Rightarrow> if v > 0 then v else window),
                            remaining = Some 0\<rparr>,
                       st3))
               else
                 (Inr \<lparr>allowed = True, retry_after = None,
                       remaining = Some (max (limit - current) 0)\<rparr>,
                  st2)))"

definition rl_key :: "string \<Rightarrow> string" where
  "rl_key identifier = ''netrecon:rl:'' @ identifier"

definition check_rate_limit ::
  "settings \<Rightarrow> 'w redis \<Rightarrow> string \<Rightarrow> 'w proc \<Rightarrow> RateLimitResult \<times> 'w proc" where
  "check_rate_limit cfg r identifier st =
     (if \<not> rate_limit_enabled cfg then (fail_open, st)
      else
        (case get_redis_client cfg r st of
           (None, st1) \<Rightarrow> (fail_open, st1)
         | (Some c, st1) \<Rightarrow>
             (case try_body r (rl_key identifier)
                     (rate_limit_requests_per_window cfg) (rate_limit_window_seconds cfg) st1 of
                (Inl e, st2) \<Rightarrow>
                  (fail_open,
                   log_error (''Rate limiting check failed for '' @ identifier @ '': '' @ message e)
                     st2)
              | (Inr res, st2) \<Rightarrow> (res, st2))))"


section \<open>The GeoIP resolver (api/geoip\_resolver.py)\<close>

subsection \<open>What the libraries hand over\<close>

text \<open>
  \<^verbatim>\<open>ipaddress.ip_address\<close> returns an \<^verbatim>\<open>IPv4Address\<close> or an \<^verbatim>\<open>IPv6Address\<close>; the resolver
  looks at the class only.
\<close>

datatype ip_obj = IPv4Address | IPv6Address

text \<open>
  The records of \<^verbatim>\<open>geoip2\<close>, with the attributes the resolver reads. An attribute that
  may be \<^verbatim>\<open>None\<close> is an option; where the source tests a whole record for truth
  (\<^verbatim>\<open>if city.continent\<close>), the record is an option and \<open>None\<close> is the false case.
  A \<^verbatim>\<open>names\<close> dictionary is an association list from locale to name. Latitude and
  longitude are passed through untouched, as the numbers they denote.
\<close>

type_synonym names = "(string \<times> string) list"

record Continent =
  names :: names
  code :: "string option"

record Country =
  names :: names
  iso_code :: "string option"
  is_in_european_union :: "bool option"

record Subdivision =
  names :: names
  iso_code :: "string option"

record City_record =
  names :: names

record Location =
  latitude :: "real option"
  longitude :: "real option"
  time_zone :: "string option"

record Postal =
  code :: "string option"

text \<open>The answer of \<^verbatim>\<open>city_reader.city\<close>; \<open>most_specific\<close> is \<^verbatim>\<open>subdivisions.most_specific\<close>.\<close>

record City =
  continent :: "Continent option"
  country :: "Country option"
  most_specific :: "Subdivision option"
  city :: "City_record option"
  location :: Location
  postal :: "Postal option"

text \<open>
  The answer of \<^verbatim>\<open>asn_reader.asn\<close>; \<open>network\<close> is the network as \<^verbatim>\<open>str\<close> prints it, when
  there is one.
\<close>

record ASN =
  autonomous_system_number :: "int option"
  autonomous_system_organization :: "string option"
  network :: "string option"

text \<open>
  What a reader raises: \<^verbatim>\<open>AddressNotFoundError\<close>, or any other \<^verbatim>\<open>Exception\<close>; each with
  the text \<^verbatim>\<open>str\<close> gives for it.
\<close>

datatype reader_error = AddressNotFoundError string | OtherError string

text \<open>
  \<^verbatim>\<open>COUNTRY_META\<close> is whatever \<^verbatim>\<open>json.load\<close> read from the metadata file: any JSON
  value, \<^verbatim>\<open>{}\<close> when the file is missing. An object is the association list of its
  members.
\<close>

datatype json =
  JNull
| JBool bool
| JInt int
| JFloat real
| JStr string
| JArr "json list"
| JObj "(string \<times> json) list"

text \<open>The exceptions the resolver's own statements can raise on such a value.\<close>

datatype py_error = TypeError | AttributeError | KeyError

text \<open>\<^verbatim>\<open>if v:\<close>\<close>

fun truthy :: "json \<Rightarrow> bool" where
  "truthy JNull = False"
| "truthy (JBool b) = b"
| "truthy (JInt n) = (n \<noteq> 0)"
| "truthy (JFloat x) = (x \<noteq> 0)"
| "truthy (JStr s) = (s \<noteq> [])"
| "truthy (JArr xs) = (xs \<noteq> [])"
| "truthy (JObj kvs) = (kvs \<noteq> [])"

text \<open>
  \<^verbatim>\<open>k in v\<close> for a string \<open>k\<close>: a key of an object, an element of an array, a substring
  of a string; a \<^verbatim>\<open>TypeError\<close> on anything else.
\<close>

fun py_in :: "string \<Rightarrow> json \<Rightarrow> py_error + bool" where
  "py_in k (JObj kvs) = Inr (k \<in> set (map fst kvs))"
| "py_in k (JArr xs) = Inr (JStr k \<in> set xs)"
| "py_in k (JStr s) = Inr (sublist k s)"
| "py_in k v = Inl TypeError"

text \<open>\<^verbatim>\<open>v[k]\<close> for a string \<open>k\<close>.\<close>

fun py_getitem :: "json \<Rightarrow> string \<Rightarrow> py_error + json" where
  "py_getitem (JObj kvs) k = (case map_of kvs k of None \<Rightarrow> Inl KeyError | Some v \<Rightarrow> Inr v)"
| "py_getitem v k = Inl TypeError"

text \<open>\<^verbatim>\<open>v.get(k)\<close>: only a dictionary has the method; a missing key gives \<^verbatim>\<open>None\<close>.\<close>

fun py_get :: "json \<Rightarrow> string \<Rightarrow> py_error + json" where
  "py_get (JObj kvs) k = Inr (case map_of kvs k of None \<Rightarrow> JNull | Some v \<Rightarrow> v)"
| "py_get v k = Inl AttributeError"

text \<open>The module-level readers and table, and the address parser of the standard library.\<close>

record geo_env =
  ip_address :: "string \<Rightarrow> ip_obj option"
  city_reader :: "string \<Rightarrow> reader_error + City"
  asn_reader :: "string \<Rightarrow> reader_error + ASN"
  COUNTRY_META :: json

datatype db_call = CityLookup string | AsnLookup string

subsection \<open>The dictionaries the resolver builds\<close>

record flag_dict =
  emoji :: json
  svg :: json
  png :: json

record connection_dict =
  asn :: "int option"
  org :: "string option"
  isp :: "string option"
  route :: string

record result =
  ip :: string
  success :: bool
  type :: string
  continent :: "string option"
  continent_code :: "string option"
  country :: "string option"
  country_code :: "string option"
  region :: "string option"
  region_code :: "string option"
  city :: "string option"
  latitude :: "real option"
  longitude :: "real option"
  is_eu :: "bool option"
  postal :: "string option"
  calling_code :: json
  capital :: json
  borders :: json
  flag :: "flag_dict option"
  connection :: "connection_dict option"
  timezone :: "string option"

subsection \<open>\<^verbatim>\<open>_lookup_connection\<close>\<close>

definition lookup_connection :: "geo_env \<Rightarrow> string \<Rightarrow> connection_dict option" where
  "lookup_connection env a =
     (case asn_reader env a of
        Inl (AddressNotFoundError m) \<Rightarrow> None
      | Inl (OtherError m) \<Rightarrow> None
      | Inr x \<Rightarrow>
          Some \<lparr>asn = autonomous_system_number x,
                org = autonomous_system_organization x,
                isp = autonomous_system_organization x,
                route = (case network x of None \<Rightarrow> ''None'' | Some n \<Rightarrow> n)\<rparr>)"

subsection \<open>\<^verbatim>\<open>lookup_ip\<close>\<close>

text \<open>\<^verbatim>\<open>names.get("en")\<close>\<close>

definition get_en :: "names \<Rightarrow> string option" where
  "get_en ns = map_of ns ''en''"

text \<open>The dictionary literal \<^verbatim>\<open>result = {...}\<close>.\<close>

definition base_result :: "string \<Rightarrow> ip_obj \<Rightarrow> City \<Rightarrow> result" where
  "base_result a ip_obj c =
     \<lparr>ip = a,
      success = True,
      type = (if ip_obj = IPv4Address then ''ipv4'' else ''ipv6''),
      continent = (case City.continent c of None \<Rightarrow> None | Some k \<Rightarrow> get_en (Continent.names k)),
      continent_code = (case City.continent c of None \<Rightarrow> None | Some k \<Rightarrow> Continent.code k),
      country = (case City.country c of None \<Rightarrow> None | Some k \<Rightarrow> get_en (Country.names k)),
      country_code = (case City.country c of None \<Rightarrow> None | Some k \<Rightarrow> Country.iso_code k),
      region = (case most_specific c of
                  None \<Rightarrow> None
                | Some s \<Rightarrow> if Subdivision.names s \<noteq> [] then get_en (Subdivision.names s) else None),
      region_code = (case most_specific c of None \<Rightarrow> None | Some s \<Rightarrow> Subdivision.iso_code s),
      city = (case City.city c of None \<Rightarrow> None | Some k \<Rightarrow> get_en (City_record.names k)),
      latitude = Location.latitude (location c),
      longitude = Location.longitude (location c),
      is_eu = (case City.country c of None \<Rightarrow> None | Some k \<Rightarrow> is_in_european_union k),
      postal = (case City.postal c of None \<Rightarrow> None | Some p \<Rightarrow> Postal.code p),
      calling_code = JNull,
      capital = JNull,
      borders = JNull,
      flag = None,
      connection = None,
      timezone = time_zone (location c)\<rparr>"

text \<open>
  \<^verbatim>\<open>if flag_meta: result["flag"] = {...}\<close>, with the three \<^verbatim>\<open>flag_meta.get\<close> in the order
  of the literal.
\<close>

definition inject_flag :: "json \<Rightarrow> result \<Rightarrow> py_error + result" where
  "inject_flag flag_meta res =
     (if truthy flag_meta then
        (case py_get flag_meta ''emoji'' of
           Inl x \<Rightarrow> Inl x
         | Inr e \<Rightarrow>
             (case py_get flag_meta ''svg'' of
                Inl x \<Rightarrow> Inl x
              | Inr s \<Rightarrow>
                  (case py_get flag_meta ''png'' of
                     Inl x \<Rightarrow> Inl x
                   | Inr p \<Rightarrow> Inr (res\<lparr>flag := Some \<lparr>emoji = e, svg = s, png = p\<rparr>\<rparr>))))
      else Inr res)"

text \<open>The block under \<^verbatim>\<open>if cc and cc in COUNTRY_META\<close>, for a country code \<open>cc\<close>.\<close>

definition inject_entry :: "json \<Rightarrow> string \<Rightarrow> result \<Rightarrow> py_error + result" where
  "inject_entry table cc res =
     (case py_getitem table cc of
        Inl x \<Rightarrow> Inl x
      | Inr meta \<Rightarrow>
          (case py_get meta ''calling_code'' of
             Inl x \<Rightarrow> Inl x
           | Inr v1 \<Rightarrow>
               (case py_get meta ''capital'' of
                  Inl x \<Rightarrow> Inl x
                | Inr v2 \<Rightarrow>
                    (case py_get meta ''borders'' of
                       Inl x \<Rightarrow> Inl x
                     | Inr v3 \<Rightarrow>
                         (case py_get meta ''flag'' of
                            Inl x \<Rightarrow> Inl x
                          | Inr flag_meta \<Rightarrow>
                              inject_flag flag_meta
                                (res\<lparr>calling_code := v1, capital := v2, borders := v3\<rparr>))))))"

definition inject_meta :: "json \<Rightarrow> result \<Rightarrow> py_error + result" where
  "inject_meta table res =
     (case country_code res of
        None \<Rightarrow> Inr res
      | Some cc \<Rightarrow>
          if cc = [] then Inr res
          else
            (case py_in cc table of
               Inl x \<Rightarrow> Inl x
             | Inr False \<Rightarrow> Inr res
             | Inr True \<Rightarrow> inject_entry table cc res))"

text \<open>
  The value is what the caller gets, the pair \<^verbatim>\<open>(result, error)\<close> or the exception that
  leaves the function, together with the database lookups made.
\<close>

definition lookup_ip ::
  "geo_env \<Rightarrow> string \<Rightarrow> (py_error + result option \<times> string option) \<times> db_call list" where
  "lookup_ip env a =
     (case ip_address env a of
        None \<Rightarrow> (Inr (None, Some ''invalid_ip''), [])
      | Some ip_obj \<Rightarrow>
          (case city_reader env a of
             Inl (AddressNotFoundError m) \<Rightarrow> (Inr (None, Some ''not_found''), [CityLookup a])
           | Inl (OtherError m) \<Rightarrow> (Inr (None, Some (''lookup_error:'' @ m)), [CityLookup a])
           | Inr c \<Rightarrow>
               (case inject_meta (COUNTRY_META env) (base_result a ip_obj c) of
                  Inl x \<Rightarrow> (Inl x, [CityLookup a])
                | Inr res \<Rightarrow>
                    (Inr (Some (case lookup_connection env a of
                                  None \<Rightarrow> res
                                | Some k \<Rightarrow> res\<lparr>connection := Some k\<rparr>),
                          None),
                     [CityLookup a, AsnLookup a]))))"


section \<open>Notions used to state the properties\<close>

subsection \<open>Calls issued between two states of the process\<close>

definition issued :: "'w proc \<Rightarrow> 'w proc \<Rightarrow> call list" where
  "issued st st' = drop (length (calls st)) (calls st')"

fun is_expire :: "call \<Rightarrow> bool" where
  "is_expire (Expire k s) = True"
| "is_expire c = False"

subsection \<open>A metadata table of the shape the resolver expects\<close>

text \<open>
  An entry is an object whose \<^verbatim>\<open>flag\<close> member, when there is one, is an object or a
  value that counts as false; the table is an object of such entries.
\<close>

definition entry_ok :: "json \<Rightarrow> bool" where
  "entry_ok m =
     (case m of
        JObj kvs \<Rightarrow>
          (case map_of kvs ''flag'' of
             None \<Rightarrow> True
           | Some (JObj fs) \<Rightarrow> True
           | Some f \<Rightarrow> \<not> truthy f)
      | _ \<Rightarrow> False)"

definition meta_table_ok :: "json \<Rightarrow> bool" where
  "meta_table_ok t = (case t of JObj kvs \<Rightarrow> list_all entry_ok (map snd kvs) | _ \<Rightarrow> False)"

section \<open>Example environments\<close>

text \<open>Five requests per minute.\<close>

definition cfg5 :: settings where
  "cfg5 = \<lparr>rate_limit_enabled = True, rate_limit_requests_per_window = 5,
            rate_limit_window_seconds = 60, redis_url = ''redis://localhost:6379/0''\<rparr>"

text \<open>A store without memory that gives the same four answers every time.\<close>

definition stub_store ::
  "unit reply \<Rightarrow> int reply \<Rightarrow> bool reply \<Rightarrow> int option reply \<Rightarrow> unit redis" where
  "stub_store p i e t =
     \<lparr>from_url = (\<lambda>u w. (Inr (Client u), w)),
      ping = (\<lambda>w. (p, w)),
      incr = (\<lambda>k w. (i, w)),
      expire = (\<lambda>k s w. (e, w)),
      ttl = (\<lambda>k w. (t, w))\<rparr>"

text \<open>
  A store that refuses the first ping and accepts the later ones. Its state is the
  number of pings seen and the value of its one counter.
\<close>

definition flaky_store :: "(nat \<times> int) redis" where
  "flaky_store =
     \<lparr>from_url = (\<lambda>u w. (Inr (Client u), w)),
      ping = (\<lambda>(p, n). (if p = 0 then Inl (Exception ''Connection refused'') else Inr (),
                          (Suc p, n))),
      incr = (\<lambda>k (p, n). (Inr (n + 1), (p, n + 1))),
      expire = (\<lambda>k s w. (Inr True, w)),
      ttl = (\<lambda>k w. (Inr (Some 60), w))\<rparr>"

definition demo_city :: City where
  "demo_city =
     \<lparr>City.continent = Some \<lparr>Continent.names = [(''de'', ''Nordamerika''), (''en'', ''North America'')],
                               Continent.code = Some ''NA''\<rparr>,
      City.country = Some \<lparr>Country.names = [(''en'', ''United States'')],
                           Country.iso_code = Some ''US'',
                           is_in_european_union = Some False\<rparr>,
      most_specific = Some \<lparr>Subdivision.names = [(''en'', ''California'')],
                            Subdivision.iso_code = Some ''CA''\<rparr>,
      City.city = Some \<lparr>City_record.names = [(''en'', ''Mountain View'')]\<rparr>,
      location = \<lparr>Location.latitude = Some 37, Location.longitude = Some (-122),
                  time_zone = Some ''America/Los_Angeles''\<rparr>,
      City.postal = Some \<lparr>Postal.code = Some ''94043''\<rparr>\<rparr>"

definition demo_meta :: json where
  "demo_meta =
     JObj [(''US'',
            JObj [(''calling_code'', JStr ''+1''),
                  (''capital'', JStr ''Washington, D.C.''),
                  (''borders'', JArr [JStr ''CA'', JStr ''MX'']),
                  (''flag'', JObj [(''emoji'', JStr ''US''), (''svg'', JStr ''us.svg'')])])]"

definition demo_env :: "json \<Rightarrow> geo_env" where
  "demo_env table =
     \<lparr>ip_address = (\<lambda>s. if s = ''8.8.8.8'' \<or> s = ''10.0.0.1'' \<or> s = ''192.0.2.1''
                         then Some IPv4Address
                         else if s = ''2001:db8::1'' then Some IPv6Address else None),
      city_reader = (\<lambda>s. if s = ''8.8.8.8'' then Inr demo_city
                          else if s = ''192.0.2.1'' then Inl (OtherError ''database closed'')
                          else Inl (AddressNotFoundError ''not in the database'')),
      asn_reader = (\<lambda>s. Inl (AddressNotFoundError ''not in the database'')),
      COUNTRY_META = table\<rparr>"

section \<open>Auxiliary facts\<close>

lemmas rl_eval =
  check_rate_limit_def get_redis_client_def try_body_def arm_first_hit_def perform_def
  log_info_def log_error_def init_proc_def rl_key_def fail_open_def issued_def
  cfg5_def stub_store_def flaky_store_def

lemmas geo_eval =
  lookup_ip_def inject_meta_def inject_entry_def inject_flag_def base_result_def
  lookup_connection_def get_en_def demo_env_def demo_meta_def demo_city_def
  meta_table_ok_def entry_ok_def

subsection \<open>The rate limiter, branch by branch\<close>

lemma check_disabled:
  "\<not> rate_limit_enabled cfg \<Longrightarrow> check_rate_limit cfg r identifier st = (fail_open, st)"
  by (simp add: check_rate_limit_def)

lemma check_no_client:
  "rate_limit_enabled cfg \<Longrightarrow> get_redis_client cfg r st = (None, st1) \<Longrightarrow>
     check_rate_limit cfg r identifier st = (fail_open, st1)"
  by (simp add: check_rate_limit_def)

lemma check_raised:
  "rate_limit_enabled cfg \<Longrightarrow> get_redis_client cfg r st = (Some c, st1) \<Longrightarrow>
   try_body r (rl_key identifier) (rate_limit_requests_per_window cfg)
     (rate_limit_window_seconds cfg) st1 = (Inl e, st2) \<Longrightarrow>
   check_rate_limit cfg r identifier st =
     (fail_open,
      log_error (''Rate limiting check failed for '' @ identifier @ '': '' @ message e) st2)"
  by (simp add: check_rate_limit_def)

lemma check_decided:
  "rate_limit_enabled cfg \<Longrightarrow> get_redis_client cfg r st = (Some c, st1) \<Longrightarrow>
   try_body r (rl_key identifier) (rate_limit_requests_per_window cfg)
     (rate_limit_window_seconds cfg) st1 = (Inr res, st2) \<Longrightarrow>
   check_rate_limit cfg r identifier st = (res, st2)"
  by (simp add: check_rate_limit_def)

lemma arm_first_hit_ok:
  "(if current = 1 then expire r key window (world st) = (Inr b, w3) else w3 = world st) \<Longrightarrow>
   arm_first_hit r key window current st =
     (Inr (), st\<lparr>world := w3,
                 calls := calls st @ (if current = 1 then [Expire key window] else [])\<rparr>)"
  by (simp add: arm_first_hit_def perform_def split: if_splits)


lemma try_body_expire_raises:
  "incr r key (world st) = (Inr 1, w2) \<Longrightarrow> expire r key window w2 = (Inl e, w3) \<Longrightarrow>
   try_body r key limit window st =
     (Inl e, st\<lparr>world := w3, calls := calls st @ [Incr key, Expire key window]\<rparr>)"
  by (simp add: try_body_def arm_first_hit_def perform_def)

lemma try_body_armed:
  assumes "incr r key (world st) = (Inr current, w2)"
    and "if current = 1 then expire r key window w2 = (Inr b, w3) else w3 = w2"
  shows "try_body r key limit window st =
     (let st2 = st\<lparr>world := w3,
                   calls := calls st @ Incr key # (if current = 1 then [Expire key window] else [])\<rparr>
      in if current > limit then
           (case perform (Ttl key) (ttl r key) st2 of
              (Inl e, st3) \<Rightarrow> (Inl e, st3)
            | (Inr t, st3) \<Rightarrow>
                (Inr \<lparr>allowed = False,
                      retry_after = Some (case t of None \<Rightarrow> window
                                          | Some v \<Rightarrow> if v > 0 then v else window),
                      remaining = Some 0\<rparr>, st3))
         else (Inr \<lparr>allowed = True, retry_after = None,
                     remaining = Some (max (limit - current) 0)\<rparr>, st2))"
proof -
  have p: "perform (Incr key) (incr r key) st =
             (Inr current, st\<lparr>world := w2, calls := calls st @ [Incr key]\<rparr>)"
    using assms(1) by (simp add: perform_def)
  have a: "arm_first_hit r key window current (st\<lparr>world := w2, calls := calls st @ [Incr key]\<rparr>) =
             (Inr (), st\<lparr>world := w3,
                calls := calls st @ Incr key # (if current = 1 then [Expire key window] else [])\<rparr>)"
    using assms(2) arm_first_hit_ok [of current r key window "st\<lparr>world := w2, calls := calls st @ [Incr key]\<rparr>" b w3]
    by (simp split: if_splits)
  show ?thesis
    by (simp add: try_body_def p a Let_def)
qed


lemma try_body_over:
  assumes "incr r key (world st) = (Inr current, w2)"
    and "if current = 1 then expire r key window w2 = (Inr b, w3) else w3 = w2"
    and "current > limit"
    and "ttl r key w3 = (Inr t, w4)"
  shows "\<exists>st'. try_body r key limit window st =
           (Inr \<lparr>allowed = False,
                 retry_after = Some (case t of Some v \<Rightarrow> if 0 < v then v else window
                                     | None \<Rightarrow> window),
                 remaining = Some 0\<rparr>, st')"
  using assms(3,4) by (simp add: try_body_armed [OF assms(1,2)] perform_def)

lemma try_body_under:
  assumes "incr r key (world st) = (Inr current, w2)"
    and "if current = 1 then expire r key window w2 = (Inr b, w3) else w3 = w2"
    and "current \<le> limit"
  shows "\<exists>st'. try_body r key limit window st =
           (Inr \<lparr>allowed = True, retry_after = None, remaining = Some (limit - current)\<rparr>, st')"
  using assms(3) by (simp add: try_body_armed [OF assms(1,2)])



lemma try_body_expire_calls:
  assumes "incr r key (world st) = (Inr current, w2)"
  shows "\<exists>new. calls (snd (try_body r key limit window st)) = calls st @ new \<and>
           filter is_expire new = (if current = 1 then [Expire key window] else [])"
proof (cases "current = 1")
  case True
  obtain x w3 where e: "expire r key window w2 = (x, w3)"
    by (cases "expire r key window w2")
  show ?thesis
  proof (cases x)
    case (Inl e')
    with assms True e show ?thesis
      by (simp add: try_body_expire_raises [of r key st w2 window e' w3])
  next
    case (Inr b)
    with True e have arm: "if current = 1 then expire r key window w2 = (Inr b, w3) else w3 = w2"
      by simp
    show ?thesis
      using True
      by (simp add: try_body_armed [OF assms arm] perform_def Let_def
               split: prod.splits sum.splits)
  qed
next
  case False
  then have arm: "if current = 1 then expire r key window w2 = (Inr True, w2) else w2 = w2"
    by simp
  show ?thesis
    using False
    by (simp add: try_body_armed [OF assms arm] perform_def Let_def
             split: prod.splits sum.splits)
qed



lemma get_redis_client_calls:
  "\<exists>cs. calls (snd (get_redis_client cfg r st)) = calls st @ cs \<and> filter is_expire cs = []"
  by (auto simp: get_redis_client_def perform_def log_error_def log_info_def
           split: option.splits prod.splits sum.splits)

lemma try_body_shape:
  assumes "0 < window" and "try_body r key limit window st = (Inr res, st')"
  shows "(\<not> allowed res \<longrightarrow> (\<exists>n. 0 < n \<and> retry_after res = Some n) \<and> remaining res = Some 0) \<and>
         (allowed res \<longrightarrow> retry_after res = None) \<and> remaining res \<noteq> None"
  using assms
  by (auto simp: try_body_def split: prod.splits sum.splits if_splits option.splits)


subsection \<open>The metadata injection on a well-shaped table\<close>







section \<open>The claims\<close>

text \<open>
  C1. When rate limiting is on, a client is at hand and the increment returns a count
  above the limit, the check denies: allowed is false, remaining is 0, and retry-after
  is the time-to-live the store reports when that is a positive number, the configured
  window when the store reports none or a value that is not positive. The expiry call,
  made when the count is 1, and the time-to-live read are taken to return; a raising
  call is the subject of C6.
\<close>

theorem over_limit_denied:
  assumes enabled: "rate_limit_enabled cfg"
    and cl: "get_redis_client cfg r st = (Some c, st1)"
    and inc: "incr r (rl_key identifier) (world st1) = (Inr current, w2)"
    and over: "current > rate_limit_requests_per_window cfg"
    and arm: "if current = 1
              then expire r (rl_key identifier) (rate_limit_window_seconds cfg) w2 = (Inr b, w3)
              else w3 = w2"
    and rd: "ttl r (rl_key identifier) w3 = (Inr t, w4)"
  shows "fst (check_rate_limit cfg r identifier st) =
           \<lparr>allowed = False,
            retry_after = Some (case t of
                                  Some v \<Rightarrow> if 0 < v then v else rate_limit_window_seconds cfg
                                | None \<Rightarrow> rate_limit_window_seconds cfg),
            remaining = Some 0\<rparr>"
  using try_body_over [OF inc arm over rd] check_decided [OF enabled cl]
  by fastforce

theorem over_limit_denied_witness:
  "rate_limit_enabled cfg5 \<and>
   fst (get_redis_client cfg5 (stub_store (Inr ()) (Inr 6) (Inr True) (Inr (Some 42)))
          (init_proc ())) = Some (Client ''redis://localhost:6379/0'') \<and>
   rate_limit_requests_per_window cfg5 < 6 \<and>
   fst (check_rate_limit cfg5 (stub_store (Inr ()) (Inr 6) (Inr True) (Inr (Some 42)))
          ''1.2.3.4'' (init_proc ())) =
     \<lparr>allowed = False, retry_after = Some 42, remaining = Some 0\<rparr> \<and>
   fst (check_rate_limit cfg5 (stub_store (Inr ()) (Inr 6) (Inr True) (Inr (Some (- 2))))
          ''1.2.3.4'' (init_proc ())) =
     \<lparr>allowed = False, retry_after = Some 60, remaining = Some 0\<rparr> \<and>
   fst (check_rate_limit cfg5 (stub_store (Inr ()) (Inr 6) (Inr True) (Inr None))
          ''1.2.3.4'' (init_proc ())) =
     \<lparr>allowed = False, retry_after = Some 60, remaining = Some 0\<rparr>"
proof -
  have enabled: "rate_limit_enabled cfg5"
    by (simp add: cfg5_def)
  have over: "rate_limit_requests_per_window cfg5 < 6"
    by (simp add: cfg5_def)
  have arm: "if (6::int) = 1 then expire (stub_store (Inr ()) (Inr 6) (Inr True) t) (rl_key ''1.2.3.4'')
                (rate_limit_window_seconds cfg5) () = (Inr True, ()) else () = ()" for t
    by simp
  have cl: "get_redis_client cfg5 (stub_store (Inr ()) (Inr 6) (Inr True) t) (init_proc ()) =
              (Some (Client ''redis://localhost:6379/0''),
               snd (get_redis_client cfg5 (stub_store (Inr ()) (Inr 6) (Inr True) t) (init_proc ())))"
    for t
    by (simp add: rl_eval)
  have inc: "incr (stub_store (Inr ()) (Inr 6) (Inr True) t) (rl_key ''1.2.3.4'')
               (world (snd (get_redis_client cfg5 (stub_store (Inr ()) (Inr 6) (Inr True) t)
                              (init_proc ())))) = (Inr 6, ())" for t
    by (simp add: stub_store_def)
  have rd: "ttl (stub_store (Inr ()) (Inr 6) (Inr True) (Inr t)) (rl_key ''1.2.3.4'') () = (Inr t, ())"
    for t
    by (simp add: stub_store_def)
  note denied = over_limit_denied [OF enabled cl inc over arm rd]
  have client: "fst (get_redis_client cfg5 (stub_store (Inr ()) (Inr 6) (Inr True) (Inr (Some 42)))
          (init_proc ())) = Some (Client ''redis://localhost:6379/0'')"
    by (simp add: rl_eval)
  show ?thesis
    using enabled over client denied [of "Some 42"] denied [of "Some (- 2)"] denied [of None]
    by (simp add: cfg5_def)
qed

text \<open>
  C2. When rate limiting is on, a client is at hand and the increment returns a count
  that is at most the limit, the check allows: allowed is true, retry-after is absent,
  and remaining is the limit minus the count, floored at 0, which on this branch is the
  limit minus the count itself. The expiry call, made when the count is 1, is taken to
  return.
\<close>

theorem under_limit_allowed:
  assumes enabled: "rate_limit_enabled cfg"
    and cl: "get_redis_client cfg r st = (Some c, st1)"
    and inc: "incr r (rl_key identifier) (world st1) = (Inr current, w2)"
    and under: "current \<le> rate_limit_requests_per_window cfg"
    and arm: "if current = 1
              then expire r (rl_key identifier) (rate_limit_window_seconds cfg) w2 = (Inr b, w3)
              else w3 = w2"
  shows "fst (check_rate_limit cfg r identifier st) =
           \<lparr>allowed = True, retry_after = None,
            remaining = Some (max (rate_limit_requests_per_window cfg - current) 0)\<rparr> \<and>
         max (rate_limit_requests_per_window cfg - current) 0 =
           rate_limit_requests_per_window cfg - current"
  using try_body_under [OF inc arm under] check_decided [OF enabled cl] under
  by fastforce

theorem under_limit_allowed_witness:
  "rate_limit_enabled cfg5 \<and>
   (3::int) \<le> rate_limit_requests_per_window cfg5 \<and>
   fst (check_rate_limit cfg5 (stub_store (Inr ()) (Inr 3) (Inr True) (Inr (Some 42)))
          ''1.2.3.4'' (init_proc ())) =
     \<lparr>allowed = True, retry_after = None, remaining = Some 2\<rparr> \<and>
   fst (check_rate_limit cfg5 (stub_store (Inr ()) (Inr 1) (Inr True) (Inr (Some 42)))
          ''1.2.3.4'' (init_proc ())) =
     \<lparr>allowed = True, retry_after = None, remaining = Some 4\<rparr>"
proof -
  have enabled: "rate_limit_enabled cfg5"
    by (simp add: cfg5_def)
  have under: "n \<le> rate_limit_requests_per_window cfg5" if "n \<le> 5" for n
    using that by (simp add: cfg5_def)
  have arm: "if n = 1 then expire (stub_store (Inr ()) (Inr n) (Inr True) (Inr (Some 42)))
                (rl_key ''1.2.3.4'') (rate_limit_window_seconds cfg5) () = (Inr True, ())
             else () = ()" for n :: int
    by (simp add: stub_store_def)
  have cl: "get_redis_client cfg5 (stub_store (Inr ()) (Inr n) (Inr True) (Inr (Some 42)))
              (init_proc ()) =
              (Some (Client ''redis://localhost:6379/0''),
               snd (get_redis_client cfg5 (stub_store (Inr ()) (Inr n) (Inr True) (Inr (Some 42)))
                      (init_proc ())))"
    for n
    by (simp add: rl_eval)
  have inc: "incr (stub_store (Inr ()) (Inr n) (Inr True) (Inr (Some 42))) (rl_key ''1.2.3.4'')
               (world (snd (get_redis_client cfg5
                              (stub_store (Inr ()) (Inr n) (Inr True) (Inr (Some 42)))
                              (init_proc ())))) = (Inr n, ())" for n
    by (simp add: stub_store_def)
  note ok = under_limit_allowed [OF enabled cl inc under arm]
  show ?thesis
    using enabled ok [of 3] ok [of 1]
    by (simp add: cfg5_def)
qed




text \<open>
  C4. When rate limiting is on, a client is at hand and the increment returns a count,
  the expiry calls the check issues are exactly one, for the key of the identifier with
  the configured window, when the count is 1, and none when the count is anything else.
\<close>

theorem expiry_set_only_on_first_hit:
  assumes enabled: "rate_limit_enabled cfg"
    and cl: "get_redis_client cfg r st = (Some c, st1)"
    and inc: "incr r (rl_key identifier) (world st1) = (Inr current, w2)"
  shows "filter is_expire (issued st (snd (check_rate_limit cfg r identifier st))) =
           (if current = 1
            then [Expire (rl_key identifier) (rate_limit_window_seconds cfg)] else [])"
proof -
  let ?tb = "try_body r (rl_key identifier) (rate_limit_requests_per_window cfg)
               (rate_limit_window_seconds cfg) st1"
  obtain cs where cs: "calls st1 = calls st @ cs" "filter is_expire cs = []"
    using get_redis_client_calls [of cfg r st] cl by auto
  obtain new where new: "calls (snd ?tb) = calls st1 @ new"
      "filter is_expire new =
         (if current = 1 then [Expire (rl_key identifier) (rate_limit_window_seconds cfg)] else [])"
    using try_body_expire_calls [OF inc] by blast
  have "calls (snd (check_rate_limit cfg r identifier st)) = calls (snd ?tb)"
    using enabled cl by (simp add: check_rate_limit_def log_error_def split: prod.splits sum.splits)
  then show ?thesis
    using cs new by (simp add: issued_def)
qed

theorem expiry_set_only_on_first_hit_witness:
  "rate_limit_enabled cfg5 \<and>
   filter is_expire
     (issued (init_proc ())
        (snd (check_rate_limit cfg5 (stub_store (Inr ()) (Inr 1) (Inr True) (Inr (Some 42)))
                ''1.2.3.4'' (init_proc ())))) =
     [Expire ''netrecon:rl:1.2.3.4'' 60] \<and>
   filter is_expire
     (issued (init_proc ())
        (snd (check_rate_limit cfg5 (stub_store (Inr ()) (Inr 3) (Inr True) (Inr (Some 42)))
                ''1.2.3.4'' (init_proc ())))) = []"
proof -
  have enabled: "rate_limit_enabled cfg5"
    by (simp add: cfg5_def)
  have cl: "get_redis_client cfg5 (stub_store (Inr ()) (Inr n) (Inr True) (Inr (Some 42)))
              (init_proc ()) =
              (Some (Client ''redis://localhost:6379/0''),
               snd (get_redis_client cfg5 (stub_store (Inr ()) (Inr n) (Inr True) (Inr (Some 42)))
                      (init_proc ())))"
    for n
    by (simp add: rl_eval)
  have inc: "incr (stub_store (Inr ()) (Inr n) (Inr True) (Inr (Some 42))) (rl_key ''1.2.3.4'')
               (world (snd (get_redis_client cfg5
                              (stub_store (Inr ()) (Inr n) (Inr True) (Inr (Some 42)))
                              (init_proc ())))) = (Inr n, ())" for n
    by (simp add: stub_store_def)
  note armed = expiry_set_only_on_first_hit [OF enabled cl inc]
  show ?thesis
    using enabled armed [of 1] armed [of 3]
    by (simp add: cfg5_def rl_key_def)
qed

text \<open>
  C5 (as amended). When the expiry call raises after the increment returned 1, the error
  is handled like any other error of the store: it is caught at the boundary of the
  check and logged, and the check answers allowed with no retry-after and no remaining
  count. The count is not compared with the limit, and no time-to-live is read: the
  calls made are the increment and the expiry.
\<close>

theorem expire_failure_fails_open:
  assumes enabled: "rate_limit_enabled cfg"
    and cl: "get_redis_client cfg r st = (Some c, st1)"
    and inc: "incr r (rl_key identifier) (world st1) = (Inr 1, w2)"
    and ex: "expire r (rl_key identifier) (rate_limit_window_seconds cfg) w2 = (Inl e, w3)"
  shows "check_rate_limit cfg r identifier st =
           (fail_open,
            log_error (''Rate limiting check failed for '' @ identifier @ '': '' @ message e)
              (st1\<lparr>world := w3,
                    calls := calls st1 @ [Incr (rl_key identifier),
                               Expire (rl_key identifier) (rate_limit_window_seconds cfg)]\<rparr>))"
  using check_raised [OF enabled cl try_body_expire_raises [OF inc ex]] .

theorem expire_failure_fails_open_witness:
  "rate_limit_enabled cfg5 \<and>
   expire (stub_store (Inr ()) (Inr 1) (Inl (Exception ''timeout'')) (Inr (Some 60)))
     (rl_key ''1.2.3.4'') (rate_limit_window_seconds cfg5) () = (Inl (Exception ''timeout''), ()) \<and>
   fst (check_rate_limit cfg5
          (stub_store (Inr ()) (Inr 1) (Inl (Exception ''timeout'')) (Inr (Some 60)))
          ''1.2.3.4'' (init_proc ())) = fail_open \<and>
   calls (snd (check_rate_limit cfg5
          (stub_store (Inr ()) (Inr 1) (Inl (Exception ''timeout'')) (Inr (Some 60)))
          ''1.2.3.4'' (init_proc ()))) =
     [FromUrl ''redis://localhost:6379/0'', Ping, Incr ''netrecon:rl:1.2.3.4'',
      Expire ''netrecon:rl:1.2.3.4'' 60] \<and>
   logs (snd (check_rate_limit cfg5
          (stub_store (Inr ()) (Inr 1) (Inl (Exception ''timeout'')) (Inr (Some 60)))
          ''1.2.3.4'' (init_proc ()))) =
     [Info ''Connected to Redis for rate limiting at redis://localhost:6379/0'',
      Error ''Rate limiting check failed for 1.2.3.4: timeout'']"
proof -
  let ?S = "stub_store (Inr ()) (Inr 1) (Inl (Exception ''timeout'')) (Inr (Some 60))"
  have enabled: "rate_limit_enabled cfg5"
    by (simp add: cfg5_def)
  have cl: "get_redis_client cfg5 ?S (init_proc ()) =
              (Some (Client ''redis://localhost:6379/0''),
               snd (get_redis_client cfg5 ?S (init_proc ())))"
    by (simp add: rl_eval)
  have inc: "incr ?S (rl_key ''1.2.3.4'') (world (snd (get_redis_client cfg5 ?S (init_proc ())))) =
               (Inr 1, ())"
    by (simp add: stub_store_def)
  have ex: "expire ?S (rl_key ''1.2.3.4'') (rate_limit_window_seconds cfg5) () =
              (Inl (Exception ''timeout''), ())"
    by (simp add: stub_store_def)
  have st1: "snd (get_redis_client cfg5 ?S (init_proc ())) =
               \<lparr>redis_client = Some (Client ''redis://localhost:6379/0''), world = (),
                calls = [FromUrl ''redis://localhost:6379/0'', Ping],
                logs = [Info ''Connected to Redis for rate limiting at redis://localhost:6379/0'']\<rparr>"
    by (simp add: rl_eval)
  have win: "rate_limit_window_seconds cfg5 = 60"
    by (simp add: cfg5_def)
  from expire_failure_fails_open [OF enabled cl inc ex]
  show ?thesis
    using enabled ex by (simp add: st1 log_error_def rl_key_def win)
qed

text \<open>
  C5 as the specification words it fails. The increment returns 1 under a limit of 5, so
  the count dictates allowed with 4 remaining, which is the answer when the expiry call
  returns; when the expiry call raises, the answer carries no remaining count.
\<close>

theorem expire_failure_decision_counterexample:
  "fst (check_rate_limit cfg5
          (stub_store (Inr ()) (Inr 1) (Inr True) (Inr (Some 60)))
          ''1.2.3.4'' (init_proc ())) =
     \<lparr>allowed = True, retry_after = None, remaining = Some 4\<rparr> \<and>
   fst (check_rate_limit cfg5
          (stub_store (Inr ()) (Inr 1) (Inl (Exception ''timeout'')) (Inr (Some 60)))
          ''1.2.3.4'' (init_proc ())) =
     \<lparr>allowed = True, retry_after = None, remaining = None\<rparr>"
  by (simp add: rl_eval)







text \<open>
  C9. Every answer of the check has the same shape, given a positive window: a denial
  carries a positive retry-after and a remaining count of 0; an admission carries no
  retry-after; and the remaining count is absent exactly when rate limiting is disabled,
  or no client could be obtained, or an operation of the store raised.
\<close>

theorem result_shape:
  assumes win: "0 < rate_limit_window_seconds cfg"
    and res: "res = fst (check_rate_limit cfg r identifier st)"
  shows "(\<not> allowed res \<longrightarrow>
            (\<exists>n. 0 < n \<and> retry_after res = Some n) \<and> remaining res = Some 0) \<and>
         (allowed res \<longrightarrow> retry_after res = None) \<and>
         (remaining res = None \<longleftrightarrow>
            \<not> rate_limit_enabled cfg \<or>
            fst (get_redis_client cfg r st) = None \<or>
            isl (fst (try_body r (rl_key identifier) (rate_limit_requests_per_window cfg)
                        (rate_limit_window_seconds cfg) (snd (get_redis_client cfg r st)))))"
proof (cases "rate_limit_enabled cfg")
  case False
  then show ?thesis
    using res by (simp add: check_disabled fail_open_def)
next
  case enabled: True
  obtain co st1 where cl: "get_redis_client cfg r st = (co, st1)"
    by (cases "get_redis_client cfg r st")
  show ?thesis
  proof (cases co)
    case None
    then show ?thesis
      using res enabled cl by (simp add: check_no_client fail_open_def)
  next
    case (Some c)
    obtain x st2 where tb: "try_body r (rl_key identifier) (rate_limit_requests_per_window cfg)
                              (rate_limit_window_seconds cfg) st1 = (x, st2)"
      by (cases "try_body r (rl_key identifier) (rate_limit_requests_per_window cfg)
                   (rate_limit_window_seconds cfg) st1")
    from cl Some have cl': "get_redis_client cfg r st = (Some c, st1)" by simp
    show ?thesis
    proof (cases x)
      case (Inl e)
      with tb have "try_body r (rl_key identifier) (rate_limit_requests_per_window cfg)
                      (rate_limit_window_seconds cfg) st1 = (Inl e, st2)" by simp
      from check_raised [OF enabled cl' this] show ?thesis
        using res enabled cl' tb Inl by (simp add: fail_open_def)
    next
      case (Inr d)
      with tb have tb': "try_body r (rl_key identifier) (rate_limit_requests_per_window cfg)
                      (rate_limit_window_seconds cfg) st1 = (Inr d, st2)" by simp
      from check_decided [OF enabled cl' tb'] try_body_shape [OF win tb'] show ?thesis
        using res enabled cl' tb Inr by simp
    qed
  qed
qed

theorem result_shape_witness:
  "0 < rate_limit_window_seconds cfg5 \<and>
   \<not> allowed (fst (check_rate_limit cfg5
                   (stub_store (Inr ()) (Inr 6) (Inr True) (Inr (Some 42)))
                   ''1.2.3.4'' (init_proc ()))) \<and>
   retry_after (fst (check_rate_limit cfg5
                   (stub_store (Inr ()) (Inr 6) (Inr True) (Inr (Some 42)))
                   ''1.2.3.4'' (init_proc ()))) = Some 42 \<and>
   remaining (fst (check_rate_limit cfg5
                   (stub_store (Inr ()) (Inr 6) (Inr True) (Inr (Some 42)))
                   ''1.2.3.4'' (init_proc ()))) = Some 0"
proof -
  let ?S = "stub_store (Inr ()) (Inr 6) (Inr True) (Inr (Some 42))"
  have win: "0 < rate_limit_window_seconds cfg5"
    by (simp add: cfg5_def)
  have denied: "\<not> allowed (fst (check_rate_limit cfg5 ?S ''1.2.3.4'' (init_proc ())))"
    by (simp add: rl_eval)
  have after: "retry_after (fst (check_rate_limit cfg5 ?S ''1.2.3.4'' (init_proc ()))) = Some 42"
    by (simp add: rl_eval)
  from result_shape [OF win refl, of ?S "''1.2.3.4''" "init_proc ()"] denied
  have "remaining (fst (check_rate_limit cfg5 ?S ''1.2.3.4'' (init_proc ()))) = Some 0"
    by blast
  with win denied after show ?thesis by simp
qed



text \<open>
  The assumption on the table cannot be dropped: an entry whose \<^verbatim>\<open>flag\<close> is a string makes
  \<^verbatim>\<open>flag_meta.get\<close> raise, and the exception leaves the resolver.
\<close>

lemma lookup_ip_malformed_table_raises:
  "lookup_ip (demo_env (JObj [(''US'', JObj [(''flag'', JStr ''us.svg'')])])) ''8.8.8.8'' =
     (Inl AttributeError, [CityLookup ''8.8.8.8''])"
  by (simp add: geo_eval)

end
